theory Spec2Isabelle
  imports Main
begin

section \<open>Cochlea registration plugin: the orchestration logic of CochleaReg.py\<close>

text \<open>
  The plugin drives two external binaries through files and the host application's
  scene. The embedding keeps that shape: a world record (files, node objects, scene,
  standard output, a trace of the calls that leave the process), an exception monad
  over it, the host and toolbox helpers as parameters of an environment record, and
  the four methods of the source (\<open>initRun\<close>, \<open>runAcir\<close>, \<open>run\<close>,
  \<open>onApplyBtnClick\<close>) and its test (\<open>runTest\<close>,
  \<open>testSlicerCochleaRegistration\<close>) as functions in that monad.
\<close>

subsection \<open>Strings and paths\<close>

type_synonym path = string

definition newline :: char where
  "newline = CHR 0x0A"

text \<open>Python's \<open>sub in s\<close> on strings, and \<open>s.startswith(sub)\<close>.\<close>

fun startswith :: "string \<Rightarrow> string \<Rightarrow> bool" where
  "startswith s [] = True"
| "startswith [] (c # sub) = False"
| "startswith (d # s) (c # sub) = (d = c \<and> startswith s sub)"

fun py_in :: "string \<Rightarrow> string \<Rightarrow> bool" where
  "py_in sub [] = (sub = [])"
| "py_in sub (c # s) = (startswith (c # s) sub \<or> py_in sub s)"

text \<open>\<open>str\<close> of a Python integer: decimal digits, a minus sign when negative.\<close>

definition digit :: "nat \<Rightarrow> char" where
  "digit d = ''0123456789'' ! d"

function str_nat :: "nat \<Rightarrow> string" where
  "str_nat n = (if n < 10 then [digit n] else str_nat (n div 10) @ [digit (n mod 10)])"
  by pat_completeness auto
termination
  by (relation "measure (\<lambda>n. n)") auto

declare str_nat.simps [simp del]

definition str_int :: "int \<Rightarrow> string" where
  "str_int i = (if i < 0 then CHR ''-'' # str_nat (nat (- i)) else str_nat (nat i))"

text \<open>
  \<open>file.readlines()\<close>: the content cut after every newline, each line keeping its
  newline; a last line without one is kept as it is.
\<close>

fun readlines :: "string \<Rightarrow> string list" where
  "readlines [] = []"
| "readlines (c # cs) =
     (if c = newline then [c] # readlines cs
      else (case readlines cs of [] \<Rightarrow> [[c]] | l # ls \<Rightarrow> (c # l) # ls))"

text \<open>
  \<open>os.path.join(a, b)\<close> with the POSIX rules: an absolute second component
  replaces the first, and a separator is inserted unless the first is empty or
  already ends with one.
\<close>

definition join :: "path \<Rightarrow> string \<Rightarrow> path" where
  "join a b =
     (if startswith b ''/'' then b
      else if a = [] \<or> last a = CHR ''/'' then a @ b
      else a @ ''/'' @ b)"

text \<open>\<open>os.path.basename(p)\<close>: what follows the last separator.\<close>

definition basename :: "path \<Rightarrow> string" where
  "basename p = rev (takeWhile (\<lambda>c. c \<noteq> CHR ''/'') (rev p))"

text \<open>
  \<open>os.path.splitext(p)[0]\<close>: the path without its extension. The extension starts
  at the last dot of the last component, unless only dots precede it there.
\<close>

definition splitext0 :: "path \<Rightarrow> string" where
  "splitext0 p =
     (let b = rev (basename p);
          ext = takeWhile (\<lambda>c. c \<noteq> CHR ''.'') b;
          stem = drop (Suc (length ext)) b
      in if length ext < length b \<and> (\<exists>c \<in> set stem. c \<noteq> CHR ''.'')
         then take (length p - Suc (length ext)) p
         else p)"

subsection \<open>Python values, errors, nodes and the world\<close>

datatype pyerror =
    AttributeError   \<comment> \<open>a method called on \<open>None\<close>\<close>
  | ValueError       \<comment> \<open>a mode string \<open>open\<close> rejects\<close>
  | IOError          \<comment> \<open>a file to read that does not exist\<close>
  | OSError          \<comment> \<open>\<open>os.rename\<close> of a file that does not exist\<close>
  | IndexError       \<comment> \<open>a list index out of range\<close>
  | SameFileError    \<comment> \<open>\<open>shutil.copyfile\<close> of a file onto itself\<close>

text \<open>
  A reference to a node object: \<open>None\<close> is Python's \<open>None\<close>, \<open>Some i\<close> the
  \<open>i\<close>-th object of the world's object table.
\<close>

type_synonym ref = "nat option"

datatype node_class = ScalarVolumeNode | TransformNode | MarkupsFiducialNode

record node =
  nodeName :: string
  nodeClass :: node_class
  storageFileName :: "path option"   \<comment> \<open>\<open>None\<close>: \<open>GetStorageNode()\<close> is \<open>None\<close>\<close>
  content :: string                  \<comment> \<open>the data the node holds, as saved to a file\<close>

text \<open>What a \<open>print\<close> call is given (the rendering differs between Python versions).\<close>

datatype pyval =
    S string
  | P "int list"
  | B bool
  | R ref
  | I int
  | TypeOf pyval
  | NoneV
  | Time   \<comment> \<open>a reading of the clock\<close>

text \<open>What \<open>runAcir\<close> and \<open>run\<close> return: a node, the integer -1, or \<open>False\<close>.\<close>

datatype retval = RNode ref | RInt int | RBool bool

text \<open>
  The calls that act on files, on the scene or on an external binary, in order. Where a
  call reads a parameter file, the event keeps what the file held at that moment.
\<close>

datatype event =
    RemoveOtputsFolderContents path
  | SaveNode nat path
  | CopyFile path path "string option"
  | RunCropping nat "int list"
  | RunElastix path path path path
  | ReadLines path "string list"
  | RunElxInvertTransform path path path "string option"
  | CloseWritten path "string option"
  | RunTransformix path path path "string option"
  | Rename path path
  | LoadVolume path
  | LoadTransform path
  | RemoveNode nat
  | RemoveTmpsFiles
  | FuseTwoImages ref retval
  | Download string path
  | SceneClear
  | AddNewNode nat

record world =
  files :: "path \<rightharpoonup> string"
  nodes :: "node list"
  scene :: "nat list"
  stdout :: "pyval list list"
  logged :: "string list"
  trace :: "event list"

subsection \<open>The exception monad\<close>

type_synonym 'a py = "world \<Rightarrow> (pyerror + 'a) \<times> world"

definition ret :: "'a \<Rightarrow> 'a py" where
  "ret x = (\<lambda>w. (Inr x, w))"

definition raise :: "pyerror \<Rightarrow> 'a py" where
  "raise e = (\<lambda>w. (Inl e, w))"

text \<open>Sequencing: an exception stops the run and keeps the world as it was left.\<close>

definition andThen :: "'a py \<Rightarrow> ('a \<Rightarrow> 'b py) \<Rightarrow> 'b py" where
  "andThen m f = (\<lambda>w. case m w of (Inl e, w') \<Rightarrow> (Inl e, w') | (Inr x, w') \<Rightarrow> f x w')"

definition modify :: "(world \<Rightarrow> world) \<Rightarrow> unit py" where
  "modify g = (\<lambda>w. (Inr (), g w))"

definition gets :: "(world \<Rightarrow> 'a) \<Rightarrow> 'a py" where
  "gets g = (\<lambda>w. (Inr (g w), w))"

definition emit :: "event \<Rightarrow> unit py" where
  "emit ev = modify (\<lambda>w. w\<lparr>trace := trace w @ [ev]\<rparr>)"

definition py_print :: "pyval list \<Rightarrow> unit py" where
  "py_print args = modify (\<lambda>w. w\<lparr>stdout := stdout w @ [args]\<rparr>)"

definition logging_info :: "string \<Rightarrow> unit py" where
  "logging_info msg = modify (\<lambda>w. w\<lparr>logged := logged w @ [msg]\<rparr>)"

subsection \<open>Files, node objects and the scene\<close>

text \<open>\<open>node.GetName()\<close> and the other methods raise on \<open>None\<close>.\<close>

definition deref :: "ref \<Rightarrow> node py" where
  "deref r = (\<lambda>w. case r of
       None \<Rightarrow> (Inl AttributeError, w)
     | Some i \<Rightarrow> if i < length (nodes w) then (Inr (nodes w ! i), w)
                else (Inl AttributeError, w))"

definition GetName :: "ref \<Rightarrow> string py" where
  "GetName r = andThen (deref r) (\<lambda>n. ret (nodeName n))"

definition GetStorageFileName :: "ref \<Rightarrow> (path option) py" where
  "GetStorageFileName r = andThen (deref r) (\<lambda>n. ret (storageFileName n))"

definition updateNode :: "ref \<Rightarrow> (node \<Rightarrow> node) \<Rightarrow> unit py" where
  "updateNode r g = andThen (deref r) (\<lambda>n.
     modify (\<lambda>w. w\<lparr>nodes := (nodes w)[the r := g n]\<rparr>))"

definition SetName :: "ref \<Rightarrow> string \<Rightarrow> unit py" where
  "SetName r s = updateNode r (\<lambda>n. n\<lparr>nodeName := s\<rparr>)"

text \<open>
  \<open>slicer.util.saveNode(node, path)\<close>: the node's data go to the file and the
  node's storage node names that file from then on.
\<close>

definition saveNode :: "ref \<Rightarrow> path \<Rightarrow> bool py" where
  "saveNode r p = andThen (deref r) (\<lambda>n.
     andThen (emit (SaveNode (the r) p)) (\<lambda>_.
     andThen (modify (\<lambda>w. w\<lparr>files := (files w)(p \<mapsto> content n)\<rparr>)) (\<lambda>_.
     andThen (updateNode r (\<lambda>n. n\<lparr>storageFileName := Some p\<rparr>)) (\<lambda>_.
     ret True))))"

text \<open>
  \<open>slicer.util.loadVolume(path, returnNode=True)\<close> and \<open>loadTransform\<close>: a new
  node object holding the file's data joins the scene; a file that does not exist gives
  \<open>(False, None)\<close>.
\<close>

definition loadNode :: "node_class \<Rightarrow> path \<Rightarrow> (bool \<times> ref) py" where
  "loadNode cls p = (\<lambda>w. case files w p of
       None \<Rightarrow> (Inr (False, None), w)
     | Some c \<Rightarrow>
         (Inr (True, Some (length (nodes w))),
          w\<lparr>nodes := nodes w @
                 [\<lparr>nodeName = splitext0 (basename p), nodeClass = cls,
                   storageFileName = Some p, content = c\<rparr>],
            scene := scene w @ [length (nodes w)]\<rparr>))"

definition loadVolume :: "path \<Rightarrow> (bool \<times> ref) py" where
  "loadVolume p = andThen (emit (LoadVolume p)) (\<lambda>_. loadNode ScalarVolumeNode p)"

definition loadTransform :: "path \<Rightarrow> (bool \<times> ref) py" where
  "loadTransform p = andThen (emit (LoadTransform p)) (\<lambda>_. loadNode TransformNode p)"

text \<open>\<open>slicer.mrmlScene.RemoveNode(node)\<close>: the object leaves the scene.\<close>

definition removeNode :: "ref \<Rightarrow> unit py" where
  "removeNode r = (case r of
       None \<Rightarrow> ret ()
     | Some i \<Rightarrow> andThen (emit (RemoveNode i)) (\<lambda>_.
         modify (\<lambda>w. w\<lparr>scene := removeAll i (scene w)\<rparr>)))"

text \<open>
  \<open>shutil.copyfile(src, dst)\<close> refuses to copy a file onto itself and fails on a
  source that does not exist.
\<close>

definition copyfile :: "path \<Rightarrow> path \<Rightarrow> unit py" where
  "copyfile src dst = andThen (gets (\<lambda>w. files w src)) (\<lambda>c.
     andThen (emit (CopyFile src dst c)) (\<lambda>_.
     if src = dst then raise SameFileError
     else (case c of
         None \<Rightarrow> raise IOError
       | Some d \<Rightarrow> modify (\<lambda>w. w\<lparr>files := (files w)(dst \<mapsto> d)\<rparr>))))"

text \<open>\<open>os.rename(src, dst)\<close>.\<close>

definition rename :: "path \<Rightarrow> path \<Rightarrow> unit py" where
  "rename src dst = andThen (emit (Rename src dst)) (\<lambda>_.
     andThen (gets (\<lambda>w. files w src)) (\<lambda>c.
     case c of
       None \<Rightarrow> raise OSError
     | Some d \<Rightarrow> modify (\<lambda>w. w\<lparr>files := ((files w)(src := None))(dst \<mapsto> d)\<rparr>)))"

text \<open>
  \<open>open(path, "w")\<close> empties the file, \<open>write\<close> appends to it, \<open>close\<close>
  ends the writing.
\<close>

definition open_w :: "path \<Rightarrow> unit py" where
  "open_w p = modify (\<lambda>w. w\<lparr>files := (files w)(p \<mapsto> [])\<rparr>)"

definition file_write :: "path \<Rightarrow> string \<Rightarrow> unit py" where
  "file_write p l = modify (\<lambda>w. w\<lparr>files :=
     (files w)(p \<mapsto> (case files w p of None \<Rightarrow> l | Some d \<Rightarrow> d @ l))\<rparr>)"

definition close_w :: "path \<Rightarrow> unit py" where
  "close_w p = andThen (gets (\<lambda>w. files w p)) (\<lambda>c. emit (CloseWritten p c))"

text \<open>\<open>xs[i]\<close> on a Python list.\<close>

definition index :: "'a list \<Rightarrow> nat \<Rightarrow> 'a py" where
  "index xs i = (if i < length xs then ret (xs ! i) else raise IndexError)"

subsection \<open>The toolbox helpers and the host, as parameters\<close>

text \<open>
  \<open>vtVars\<close>, the dictionary of global variables that \<open>setGlobalVariables(0)\<close>
  fills: the keys the source reads or writes. The values it only hands on are kept
  as uninterpreted strings.
\<close>

type_synonym opaque = string

record vtvars =
  outputPath :: path
  parsPath :: path
  imgType :: string
  elastixBinPath :: path
  transformixBinPath :: path
  noOutput :: opaque
  croppingLength :: opaque
  RSxyz :: opaque
  hrChk :: opaque
  fixedCropPath :: "path option"
  movingCropPath :: "path option"

text \<open>
  The module \<open>VisSimCommon\<close>, the two binaries and the host's image geometry are
  not part of the source file. Each helper is a parameter: the binaries and the file
  helpers act on the files and give an exit code or a path, the point and geometry
  helpers are functions of the nodes they are given, \<open>removeTmpsFiles\<close> removes
  files and takes the nodes it selects out of the scene. Coordinates of the physical
  space are of an abstract type \<open>'f\<close> with its product \<open>fmul\<close> and its
  rendering \<open>fstr\<close> (Python's \<open>*\<close> and \<open>str\<close> on floats).
  \<open>openRwRaises\<close> says whether the interpreter rejects the mode string
  \<open>"rw"\<close> (Python 3 does, Python 2 on POSIX opens the file for reading).
\<close>

record 'f env =
  setGlobalVariables :: vtvars
  removeOtputsFolderContents :: "vtvars \<Rightarrow> (path \<rightharpoonup> string) \<Rightarrow> (path \<rightharpoonup> string)"
  ptRAS2IJK :: "node \<Rightarrow> node \<Rightarrow> int list"
  v2t :: "int list \<Rightarrow> int list"
  runCropping :: "node \<Rightarrow> int list \<Rightarrow> opaque \<Rightarrow> opaque \<Rightarrow> opaque \<Rightarrow>
                  (path \<rightharpoonup> string) \<Rightarrow> path \<times> (path \<rightharpoonup> string)"
  runElastix :: "path \<Rightarrow> path \<Rightarrow> path \<Rightarrow> path \<Rightarrow> path \<Rightarrow> opaque \<Rightarrow> string \<Rightarrow>
                 (path \<rightharpoonup> string) \<Rightarrow> int \<times> (path \<rightharpoonup> string)"
  runElxInvertTransform :: "path \<Rightarrow> path \<Rightarrow> path \<Rightarrow> opaque \<Rightarrow> string \<Rightarrow>
                 (path \<rightharpoonup> string) \<Rightarrow> int \<times> (path \<rightharpoonup> string)"
  runTransformix :: "path \<Rightarrow> path \<Rightarrow> path \<Rightarrow> path \<Rightarrow> opaque \<Rightarrow> string \<Rightarrow>
                 (path \<rightharpoonup> string) \<Rightarrow> int \<times> (path \<rightharpoonup> string)"
  removeTmpsFiles :: "vtvars \<Rightarrow> (path \<rightharpoonup> string) \<Rightarrow> (path \<rightharpoonup> string)"
  isTmpNode :: "node \<Rightarrow> bool"
  getDirs :: "node \<Rightarrow> 'f list"
  getDimensions :: "node \<Rightarrow> int \<times> int \<times> int"
  getOrigin :: "node \<Rightarrow> 'f \<times> 'f \<times> 'f"
  fmul :: "'f \<Rightarrow> 'f \<Rightarrow> 'f"
  fstr :: "'f \<Rightarrow> string"
  openRwRaises :: bool
  ptIJK2RAS :: "int list \<Rightarrow> node \<Rightarrow> 'f list"
  fiducialContent :: "'f list \<Rightarrow> string"
  remoteCacheDirectory :: path
  fetch :: "string \<Rightarrow> string option"

text \<open>\<open>open(path, "rw")\<close> followed by \<open>readlines()\<close> and \<open>close()\<close>.\<close>

definition open_rw_readlines :: "'f env \<Rightarrow> path \<Rightarrow> (string list) py" where
  "open_rw_readlines e p =
     (if openRwRaises e then raise ValueError
      else andThen (gets (\<lambda>w. files w p)) (\<lambda>c.
        case c of
          None \<Rightarrow> raise IOError
        | Some d \<Rightarrow> andThen (emit (ReadLines p (readlines d))) (\<lambda>_. ret (readlines d))))"

subsection \<open>Calls into the toolbox helpers\<close>

definition vsc_removeOtputsFolderContents :: "'f env \<Rightarrow> vtvars \<Rightarrow> unit py" where
  "vsc_removeOtputsFolderContents e vt =
     andThen (emit (RemoveOtputsFolderContents (outputPath vt))) (\<lambda>_.
     modify (\<lambda>w. w\<lparr>files := removeOtputsFolderContents e vt (files w)\<rparr>))"

definition vsc_ptRAS2IJK :: "'f env \<Rightarrow> ref \<Rightarrow> ref \<Rightarrow> (int list) py" where
  "vsc_ptRAS2IJK e fiducialNode volumeNode =
     andThen (deref fiducialNode) (\<lambda>f.
     andThen (deref volumeNode) (\<lambda>v.
     ret (ptRAS2IJK e f v)))"

definition vsc_runCropping ::
  "'f env \<Rightarrow> ref \<Rightarrow> int list \<Rightarrow> opaque \<Rightarrow> opaque \<Rightarrow> opaque \<Rightarrow> path py" where
  "vsc_runCropping e volumeNode pointT len rs hr =
     andThen (deref volumeNode) (\<lambda>n.
     andThen (emit (RunCropping (the volumeNode) pointT)) (\<lambda>_.
     (\<lambda>w. (Inr (fst (runCropping e n pointT len rs hr (files w))),
           w\<lparr>files := snd (runCropping e n pointT len rs hr (files w))\<rparr>))))"

definition vsc_runElastix ::
  "'f env \<Rightarrow> path \<Rightarrow> path \<Rightarrow> path \<Rightarrow> path \<Rightarrow> path \<Rightarrow> opaque \<Rightarrow> string \<Rightarrow> int py" where
  "vsc_runElastix e bin fixed moving out pars verbose line =
     andThen (emit (RunElastix fixed moving out pars)) (\<lambda>_.
     (\<lambda>w. (Inr (fst (runElastix e bin fixed moving out pars verbose line (files w))),
           w\<lparr>files := snd (runElastix e bin fixed moving out pars verbose line (files w))\<rparr>)))"

definition vsc_runElxInvertTransform ::
  "'f env \<Rightarrow> path \<Rightarrow> path \<Rightarrow> path \<Rightarrow> opaque \<Rightarrow> string \<Rightarrow> int py" where
  "vsc_runElxInvertTransform e tp invtp fixed verbose line =
     andThen (gets (\<lambda>w. files w tp)) (\<lambda>c.
     andThen (emit (RunElxInvertTransform tp invtp fixed c)) (\<lambda>_.
     (\<lambda>w. (Inr (fst (runElxInvertTransform e tp invtp fixed verbose line (files w))),
           w\<lparr>files := snd (runElxInvertTransform e tp invtp fixed verbose line (files w))\<rparr>))))"

definition vsc_runTransformix ::
  "'f env \<Rightarrow> path \<Rightarrow> path \<Rightarrow> path \<Rightarrow> path \<Rightarrow> opaque \<Rightarrow> string \<Rightarrow> int py" where
  "vsc_runTransformix e bin img out tp verbose line =
     andThen (gets (\<lambda>w. files w tp)) (\<lambda>c.
     andThen (emit (RunTransformix img out tp c)) (\<lambda>_.
     (\<lambda>w. (Inr (fst (runTransformix e bin img out tp verbose line (files w))),
           w\<lparr>files := snd (runTransformix e bin img out tp verbose line (files w))\<rparr>))))"

definition vsc_removeTmpsFiles :: "'f env \<Rightarrow> vtvars \<Rightarrow> unit py" where
  "vsc_removeTmpsFiles e vt =
     andThen (emit RemoveTmpsFiles) (\<lambda>_.
     modify (\<lambda>w. w\<lparr>files := removeTmpsFiles e vt (files w),
                    scene := filter (\<lambda>i. \<not> (i < length (nodes w) \<and> isTmpNode e (nodes w ! i)))
                               (scene w)\<rparr>))"

definition vsc_getDirs :: "'f env \<Rightarrow> ref \<Rightarrow> ('f list) py" where
  "vsc_getDirs e volumeNode = andThen (deref volumeNode) (\<lambda>n. ret (getDirs e n))"

text \<open>\<open>node.GetStorageNode().GetFileName()\<close>: raises when there is no storage node.\<close>

definition GetStorageNode_GetFileName :: "ref \<Rightarrow> path py" where
  "GetStorageNode_GetFileName r =
     andThen (GetStorageFileName r) (\<lambda>st.
     case st of None \<Rightarrow> raise AttributeError | Some p \<Rightarrow> ret p)"

subsection \<open>\<open>CochleaRegLogic.initRun\<close>\<close>

text \<open>The attributes \<open>initRun\<close> sets on the logic object.\<close>

record logic =
  vtVars :: vtvars
  resTransPath :: path
  resOldDefPath :: path
  resDefPath :: path
  transNodeName :: string
  fixedImgPath :: "path option"
  movingImgPath :: "path option"
  fixedRegTmpPath :: path
  movingRegTmpPath :: path
  fixedPath :: path
  movingPath :: path

text \<open>
  Lines 254 to 257: a customised output path and a customised parameter path, when
  given, replace the entries of the global variables.
\<close>

definition customised :: "vtvars \<Rightarrow> path option \<Rightarrow> path option \<Rightarrow> vtvars" where
  "customised vt0 customisedOutputPath customisedParPath =
     (let vt1 = (case customisedOutputPath of None \<Rightarrow> vt0 | Some p \<Rightarrow> vt0\<lparr>outputPath := p\<rparr>)
      in (case customisedParPath of None \<Rightarrow> vt1 | Some p \<Rightarrow> vt1\<lparr>parsPath := p\<rparr>))"

text \<open>
  Lines 249 to 289. The output folder is emptied with the global variables as
  \<open>setGlobalVariables(0)\<close> left them; the customised paths are stored afterwards.
  A node's name is read once where the source reads it again with nothing that
  renames the node in between.
\<close>

definition initRun ::
  "'f env \<Rightarrow> ref \<Rightarrow> ref \<Rightarrow> ref \<Rightarrow> ref \<Rightarrow> path option \<Rightarrow> path option \<Rightarrow> logic py" where
  "initRun e fixedVolumeNode movingVolumeNode fixedFiducialNode movingFiducialNode
           customisedOutputPath customisedParPath =
     andThen (vsc_removeOtputsFolderContents e (setGlobalVariables e)) (\<lambda>_.
     let vt = customised (setGlobalVariables e) customisedOutputPath customisedParPath
     in
     andThen (GetName fixedVolumeNode) (\<lambda>fixedName.
     andThen (py_print [S ''fixedVolumeNode  = '', S fixedName]) (\<lambda>_.
     andThen (GetName movingVolumeNode) (\<lambda>movingName.
     andThen (py_print [S ''movingVolumeNode = '', S movingName]) (\<lambda>_.
     andThen (py_print [S ''outputPath       = '', S (outputPath vt)]) (\<lambda>_.
     andThen (py_print [S ''parsPath         = '', S (parsPath vt)]) (\<lambda>_.
     andThen (GetStorageFileName fixedVolumeNode) (\<lambda>fst0.
     andThen (case fst0 of
                None \<Rightarrow>
                  andThen (saveNode fixedVolumeNode (join (outputPath vt) (fixedName @ ''.nrrd'')))
                    (\<lambda>_. ret (Some (join (outputPath vt) (fixedName @ ''.nrrd''))))
              | Some _ \<Rightarrow> ret None) (\<lambda>fixedImg.
     andThen (GetStorageNode_GetFileName fixedVolumeNode) (\<lambda>fixedP.
     andThen (GetStorageFileName movingVolumeNode) (\<lambda>mst0.
     andThen (case mst0 of
                None \<Rightarrow>
                  andThen (saveNode movingVolumeNode (join (outputPath vt) (movingName @ ''.nrrd'')))
                    (\<lambda>_. ret (Some (join (outputPath vt) (movingName @ ''.nrrd''))))
              | Some _ \<Rightarrow> ret None) (\<lambda>movingImg.
     andThen (GetStorageNode_GetFileName movingVolumeNode) (\<lambda>movingP.
     andThen (copyfile fixedP (join (outputPath vt) (fixedName @ ''.nrrd''))) (\<lambda>_.
     andThen (copyfile movingP (join (outputPath vt) (movingName @ ''.nrrd''))) (\<lambda>_.
     ret \<lparr>vtVars = vt,
          resTransPath = join (outputPath vt) ''TransformParameters.0.txt'',
          resOldDefPath = join (outputPath vt) (''deformationField'' @ imgType vt),
          resDefPath = join (outputPath vt) (movingName @ ''_dFld'' @ imgType vt),
          transNodeName = movingName @ ''_Transform'',
          fixedImgPath = fixedImg,
          movingImgPath = movingImg,
          fixedRegTmpPath = join (outputPath vt) (fixedName @ ''.nrrd''),
          movingRegTmpPath = join (outputPath vt) (movingName @ ''.nrrd''),
          fixedPath = fixedP,
          movingPath = movingP\<rparr>)))))))))))))))"

subsection \<open>The end of a run, shared by \<open>runAcir\<close> and \<open>run\<close>\<close>

text \<open>
  Lines 386 to 418 of \<open>runAcir\<close> and lines 443 to 471 of \<open>run\<close> are the same
  statements: rename the two result files, load them, swap the moving node for a
  fresh one, report the exit codes, remove the temporary files.
\<close>

definition loadResults :: "'f env \<Rightarrow> logic \<Rightarrow> ref \<Rightarrow> int \<Rightarrow> int \<Rightarrow> retval py" where
  "loadResults e self movingVolumeNode cTI cTR =
     andThen (rename (resOldDefPath self) (resDefPath self)) (\<lambda>_.
     andThen (GetName movingVolumeNode) (\<lambda>movingName.
     let resImagePath = join (outputPath (vtVars self)) ''result.nrrd'';
         registeredImagePath = join (outputPath (vtVars self)) (movingName @ ''_Registered.nrrd'')
     in
     andThen (rename resImagePath registeredImagePath) (\<lambda>_.
     andThen (py_print [S ''************  Load deformation field Transform  **********************'']) (\<lambda>_.
     andThen (loadTransform (resDefPath self)) (\<lambda>(success, vtTransformNode).
     andThen (SetName vtTransformNode (transNodeName self)) (\<lambda>_.
     andThen (loadVolume registeredImagePath) (\<lambda>(success, registeredMovingVolumeNode).
     andThen (py_print [S registeredImagePath]) (\<lambda>_.
     andThen (py_print [B success]) (\<lambda>_.
     andThen (SetName registeredMovingVolumeNode (movingName @ ''_Registered'')) (\<lambda>_.
     andThen (removeNode movingVolumeNode) (\<lambda>_.
     andThen (loadVolume (movingPath self)) (\<lambda>(success, movingVolumeNode').
     andThen (GetStorageNode_GetFileName movingVolumeNode') (\<lambda>fileName.
     andThen (SetName movingVolumeNode' (splitext0 (basename fileName))) (\<lambda>_.
     andThen (if cTI = 0 \<and> cTR = 0
              then py_print [S ''No error is reported during registeration ...'']
              else py_print [S ''error happened during registration '']) (\<lambda>_.
     andThen (vsc_removeTmpsFiles e (vtVars self)) (\<lambda>_.
     andThen (py_print [S ''================= Cochlea registration is complete  =====================''])
       (\<lambda>_.
     andThen (logging_info ''Processing completed'') (\<lambda>_.
     ret (RNode registeredMovingVolumeNode)))))))))))))))))))"

subsection \<open>\<open>CochleaRegLogic.run\<close>: registration of the whole images\<close>

text \<open>Lines 421 to 441, then the shared end.\<close>

definition run :: "'f env \<Rightarrow> ref \<Rightarrow> ref \<Rightarrow> path option \<Rightarrow> path option \<Rightarrow> retval py" where
  "run e fixedVolumeNode movingVolumeNode customisedOutputPath customisedParPath =
     andThen (logging_info ''image registration started: no cropping'') (\<lambda>_.
     andThen (initRun e fixedVolumeNode movingVolumeNode None None
                customisedOutputPath customisedParPath) (\<lambda>self.
     andThen (py_print [S ''************  Register  moving image to  fixed image **********************'']) (\<lambda>_.
     andThen (vsc_runElastix e (elastixBinPath (vtVars self)) (fixedRegTmpPath self)
                (movingRegTmpPath self) (outputPath (vtVars self)) (parsPath (vtVars self))
                (noOutput (vtVars self)) ''336'') (\<lambda>cTI.
     andThen (vsc_runTransformix e (transformixBinPath (vtVars self)) (movingRegTmpPath self)
                (outputPath (vtVars self)) (resTransPath self) (noOutput (vtVars self)) ''339'')
       (\<lambda>cTR.
     loadResults e self movingVolumeNode cTI cTR)))))"

subsection \<open>\<open>CochleaRegLogic.runAcir\<close>: registration of the cropped images\<close>

text \<open>
  Lines 371 to 378: a line that contains \<open>"(Size "\<close> becomes the size line, and
  the line as it then stands becomes the origin line if it contains \<open>"(Origin "\<close>.
\<close>

definition sizeLine :: "int \<times> int \<times> int \<Rightarrow> string" where
  "sizeLine fixedSize =
     ''(Size '' @ str_int (fst fixedSize) @ '' '' @ str_int (fst (snd fixedSize)) @ '' '' @
     str_int (snd (snd fixedSize)) @ '' )'' @ [newline]"

definition originLine :: "'f env \<Rightarrow> 'f \<times> 'f \<times> 'f \<Rightarrow> string" where
  "originLine e fixedOrg =
     ''(Origin '' @ fstr e (fst fixedOrg) @ '' '' @ fstr e (fst (snd fixedOrg)) @ '' '' @
     fstr e (snd (snd fixedOrg)) @ '' )'' @ [newline]"

definition rewriteLine :: "'f env \<Rightarrow> int \<times> int \<times> int \<Rightarrow> 'f \<times> 'f \<times> 'f \<Rightarrow> string \<Rightarrow> string" where
  "rewriteLine e fixedSize fixedOrg l =
     (let l1 = (if py_in ''(Size '' l then sizeLine fixedSize else l);
          l2 = (if py_in ''(Origin '' l1 then originLine e fixedOrg else l1)
      in l2)"

fun writeLoop ::
  "'f env \<Rightarrow> path \<Rightarrow> int \<times> int \<times> int \<Rightarrow> 'f \<times> 'f \<times> 'f \<Rightarrow> string list \<Rightarrow> unit py" where
  "writeLoop e p fixedSize fixedOrg [] = ret ()"
| "writeLoop e p fixedSize fixedOrg (l # ls) =
     andThen (file_write p (rewriteLine e fixedSize fixedOrg l)) (\<lambda>_.
     writeLoop e p fixedSize fixedOrg ls)"

text \<open>
  Lines 293 to 381, then the shared end. The second test of a missing point (line 324)
  reads \<open>fixedPoint\<close>, as the source does. The inverse transform is asked for at
  line 369, between the reading of the registration's parameters (line 360) and the
  writing of the rewritten ones (lines 370 to 379).
\<close>

definition runAcir ::
  "'f env \<Rightarrow> ref \<Rightarrow> ref \<Rightarrow> ref \<Rightarrow> ref \<Rightarrow> path option \<Rightarrow> path option \<Rightarrow> retval py" where
  "runAcir e fixedVolumeNode movingVolumeNode fixedFiducialNode movingFiducialNode
           customisedOutputPath customisedParPath =
     andThen (logging_info ''image registration started: with cropping'') (\<lambda>_.
     andThen (initRun e fixedVolumeNode movingVolumeNode fixedFiducialNode movingFiducialNode
                customisedOutputPath customisedParPath) (\<lambda>self.
     let vt = vtVars self
     in
     andThen (vsc_ptRAS2IJK e fixedFiducialNode fixedVolumeNode) (\<lambda>fixedPoint.
     andThen (py_print [S ''run fixed point: ============================'']) (\<lambda>_.
     andThen (GetName fixedVolumeNode) (\<lambda>fixedName.
     andThen (py_print [S fixedName]) (\<lambda>_.
     andThen (py_print [P fixedPoint]) (\<lambda>_.
     if sum_list fixedPoint = 0
     then andThen (py_print [S ''Error: select cochlea fixed point'']) (\<lambda>_. ret (RInt (- 1)))
     else
     andThen (saveNode fixedFiducialNode (join (outputPath vt) (fixedName @ ''_F_Cochlea_Pos.fcsv''))) (\<lambda>sR.
     andThen (vsc_ptRAS2IJK e movingFiducialNode movingVolumeNode) (\<lambda>movingPoint.
     andThen (py_print [S ''run moving point: ============================'']) (\<lambda>_.
     andThen (GetName movingVolumeNode) (\<lambda>movingName.
     andThen (py_print [S movingName]) (\<lambda>_.
     andThen (py_print [P movingPoint]) (\<lambda>_.
     if sum_list fixedPoint = 0
     then andThen (py_print [S ''Error: select cochlea moving point'']) (\<lambda>_. ret (RInt (- 1)))
     else
     andThen (saveNode movingFiducialNode (join (outputPath vt) (movingName @ ''_M_Cochlea_Pos.fcsv''))) (\<lambda>sR.
     if sum_list fixedPoint = 0 \<and> sum_list movingPoint = 0
     then andThen (py_print [S ''Error: select cochlea points in fixed and moving images''])
            (\<lambda>_. ret (RBool False))
     else
     andThen (py_print [P fixedPoint]) (\<lambda>_.
     andThen (py_print [TypeOf (P fixedPoint)]) (\<lambda>_.
     let fixedPointT = v2t e fixedPoint;
         movingPointT = v2t e movingPoint
     in
     andThen (py_print [S ''=================== Cropping ====================='']) (\<lambda>_.
     andThen (vsc_runCropping e fixedVolumeNode fixedPointT (croppingLength vt) (RSxyz vt) (hrChk vt)) (\<lambda>fixedCrop.
     andThen (loadVolume fixedCrop) (\<lambda>(success, croppedFixedNode).
     andThen (SetName croppedFixedNode (fixedName @ ''_F_Crop'')) (\<lambda>_.
     andThen (vsc_runCropping e movingVolumeNode movingPointT (croppingLength vt) (RSxyz vt) (hrChk vt)) (\<lambda>movingCrop.
     andThen (loadVolume movingCrop) (\<lambda>(success, croppedMovingNode).
     andThen (SetName croppedMovingNode (movingName @ ''_M_Crop'')) (\<lambda>_.
     let cropped = self\<lparr>vtVars := vt\<lparr>fixedCropPath := Some fixedCrop,
                                        movingCropPath := Some movingCrop\<rparr>\<rparr>
     in
     andThen (py_print [S ''************  Register cropped moving image to cropped fixed image **********************'']) (\<lambda>_.
     andThen (vsc_runElastix e (elastixBinPath vt) fixedCrop movingCrop (outputPath vt) (parsPath vt)
                (noOutput vt) ''336'') (\<lambda>cTI.
     let resTransPathOld = join (outputPath vt) ''TransformParameters.0.txt'';
         resTransPathMod = join (outputPath vt) ''TransformParametersMod.txt'';
         resTransPathModInv = join (outputPath vt) ''TransformParametersModInv.txt''
     in
     andThen (copyfile resTransPathOld resTransPathMod) (\<lambda>_.
     andThen (copyfile resTransPathOld resTransPathModInv) (\<lambda>_.
     andThen (open_rw_readlines e resTransPathMod) (\<lambda>parsLst.
     andThen (deref fixedVolumeNode) (\<lambda>fixedN.
     let fixedSize = getDimensions e fixedN;
         fOrg = getOrigin e fixedN
     in
     andThen (vsc_getDirs e fixedVolumeNode) (\<lambda>drs.
     andThen (index drs 0) (\<lambda>d0.
     andThen (index drs 4) (\<lambda>d4.
     andThen (index drs 8) (\<lambda>d8.
     let fixedOrg = (fmul e d0 (fst fOrg), fmul e d4 (fst (snd fOrg)), fmul e d8 (snd (snd fOrg)))
     in
     andThen (vsc_runElxInvertTransform e resTransPathMod resTransPathModInv (fixedRegTmpPath self)
                (noOutput vt) ''339'') (\<lambda>cTR0.
     andThen (open_w resTransPathModInv) (\<lambda>_.
     andThen (writeLoop e resTransPathModInv fixedSize fixedOrg parsLst) (\<lambda>_.
     andThen (close_w resTransPathModInv) (\<lambda>_.
     andThen (vsc_runTransformix e (transformixBinPath vt) (movingRegTmpPath self) (outputPath vt)
                resTransPathModInv (noOutput vt) ''339'') (\<lambda>cTR.
     loadResults e cropped movingVolumeNode cTI cTR))))))))))))))))))))))))))))))))))))))"

subsection \<open>\<open>CochleaRegWidget.onApplyBtnClick\<close>\<close>

text \<open>
  The widget's state the Run button reads: the nodes the two volume selectors show and
  the two fiducial nodes, \<open>None\<close> until a cochlea location is picked.
\<close>

record widget =
  fixedSelectorCurrentNode :: ref
  movingSelectorCurrentNode :: ref
  fixedFiducialNode :: ref
  movingFiducialNode :: ref

text \<open>
  \<open>fuseTwoImages\<close> shows the result; it is part of the absent helper module and
  only its call is recorded.
\<close>

definition vsc_fuseTwoImages :: "ref \<Rightarrow> retval \<Rightarrow> unit py" where
  "vsc_fuseTwoImages fixedNode registered = emit (FuseTwoImages fixedNode registered)"

text \<open>
  Lines 214 to 236. The button's text and colour and the time label are the host's
  widgets and are left out; the dispatch between the two paths is line 224.
\<close>

definition onApplyBtnClick :: "'f env \<Rightarrow> widget \<Rightarrow> unit py" where
  "onApplyBtnClick e self =
     andThen (py_print [S ''time:'', Time]) (\<lambda>_.
     andThen (py_print [TypeOf (R (fixedFiducialNode self))]) (\<lambda>_.
     andThen (if fixedFiducialNode self = None \<or> movingFiducialNode self = None
              then run e (fixedSelectorCurrentNode self) (movingSelectorCurrentNode self) None None
              else runAcir e (fixedSelectorCurrentNode self) (movingSelectorCurrentNode self)
                     (fixedFiducialNode self) (movingFiducialNode self) None None)
       (\<lambda>registeredMovingVolumeNode.
     vsc_fuseTwoImages (fixedSelectorCurrentNode self) registeredMovingVolumeNode)))"

subsection \<open>\<open>CochleaRegTest\<close>\<close>

text \<open>
  The host calls the test uses. \<open>SampleData.downloadFromURL\<close> stores what the
  address gives in the remote cache directory and loads it as a node of the given name;
  \<open>fetch\<close> is the network (\<open>None\<close>: the download or its checksum fails).
  \<open>slicer.mrmlScene.Clear(0)\<close> empties the scene.
\<close>

definition setUp :: "unit py" where
  "setUp = andThen (emit SceneClear) (\<lambda>_. modify (\<lambda>w. w\<lparr>scene := []\<rparr>))"

definition downloadFromURL :: "'f env \<Rightarrow> string \<Rightarrow> string \<Rightarrow> string \<Rightarrow> string \<Rightarrow> ref py" where
  "downloadFromURL e uri fileName nodeNm checksum =
     andThen (emit (Download uri (join (remoteCacheDirectory e) fileName))) (\<lambda>_.
     case fetch e uri of
       None \<Rightarrow> raise IOError
     | Some c \<Rightarrow>
         andThen (modify (\<lambda>w. w\<lparr>files := (files w)(join (remoteCacheDirectory e) fileName \<mapsto> c)\<rparr>))
           (\<lambda>_.
         andThen (loadNode ScalarVolumeNode (join (remoteCacheDirectory e) fileName))
           (\<lambda>(success, n).
         andThen (SetName n nodeNm) (\<lambda>_. ret n))))"

definition delayDisplay :: "string \<Rightarrow> unit py" where
  "delayDisplay msg = logging_info msg"

definition optS :: "string option \<Rightarrow> pyval" where
  "optS x = (case x of None \<Rightarrow> NoneV | Some s \<Rightarrow> S s)"

definition vsc_ptIJK2RAS :: "'f env \<Rightarrow> int list \<Rightarrow> ref \<Rightarrow> ('f list) py" where
  "vsc_ptIJK2RAS e pt volumeNode = andThen (deref volumeNode) (\<lambda>n. ret (ptIJK2RAS e pt n))"

text \<open>\<open>slicer.mrmlScene.AddNewNodeByClass(cls)\<close>: an empty node joins the scene.\<close>

definition AddNewNodeByClass :: "node_class \<Rightarrow> ref py" where
  "AddNewNodeByClass cls =
     andThen (gets (\<lambda>w. length (nodes w))) (\<lambda>i.
     andThen (emit (AddNewNode i)) (\<lambda>_.
     andThen (modify (\<lambda>w. w\<lparr>nodes := nodes w @
                [\<lparr>nodeName = [], nodeClass = cls, storageFileName = None, content = []\<rparr>],
                scene := scene w @ [i]\<rparr>)) (\<lambda>_.
     ret (Some i))))"

definition AddFiducialFromArray :: "'f env \<Rightarrow> ref \<Rightarrow> 'f list \<Rightarrow> unit py" where
  "AddFiducialFromArray e r pointRAS =
     updateNode r (\<lambda>n. n\<lparr>content := content n @ fiducialContent e pointRAS\<rparr>)"

text \<open>
  Lines 521 to 591. The \<open>try\<close> around \<open>fuseTwoImages\<close> cannot fail here,
  since only the call is recorded. Nothing is asserted about the registered image.
\<close>

definition testSlicerCochleaRegistration ::
  "'f env \<Rightarrow> path \<Rightarrow> path \<Rightarrow> int list option \<Rightarrow> int list option \<Rightarrow>
   path option \<Rightarrow> path option \<Rightarrow> unit py" where
  "testSlicerCochleaRegistration e fixedImgPath' movingImgPath' fixedPoint movingPoint
           customisedOutputPath customisedParPath =
     andThen (delayDisplay ''Starting testSlicerCochleaRegistration test'') (\<lambda>_.
     andThen (py_print [S ''fixedImgPath         : '', S fixedImgPath']) (\<lambda>_.
     andThen (py_print [S ''movingImgPath        : '', S movingImgPath']) (\<lambda>_.
     andThen (py_print [S ''customisedOutputPath : '', optS customisedOutputPath]) (\<lambda>_.
     andThen (py_print [S ''customisedParPath    : '', optS customisedParPath]) (\<lambda>_.
     let fixedNodeName = splitext0 (basename fixedImgPath');
         movingNodeName = splitext0 (basename movingImgPath')
     in
     andThen (py_print [S ''loading volumes '']) (\<lambda>_.
     andThen (py_print [S fixedImgPath']) (\<lambda>_.
     andThen (loadVolume fixedImgPath') (\<lambda>(success, fixedVolumeNode).
     andThen (py_print [B success]) (\<lambda>_.
     andThen (SetName fixedVolumeNode fixedNodeName) (\<lambda>_.
     andThen (loadVolume movingImgPath') (\<lambda>(success, movingVolumeNode).
     andThen (SetName movingVolumeNode movingNodeName) (\<lambda>_.
     andThen (py_print [B success]) (\<lambda>_.
     andThen (vsc_removeOtputsFolderContents e (setGlobalVariables e)) (\<lambda>_.
     andThen ((case (fixedPoint, movingPoint) of
                (Some fp, Some mp) \<Rightarrow>
                  andThen (py_print [S ''creating points nodes'']) (\<lambda>_.
                  andThen (vsc_ptIJK2RAS e fp fixedVolumeNode) (\<lambda>fixedPointRAS.
                  andThen (AddNewNodeByClass MarkupsFiducialNode) (\<lambda>fixedFiducialNode.
                  andThen (SetName fixedFiducialNode ''F_cochleaLocationPoint'') (\<lambda>_.
                  andThen (AddFiducialFromArray e fixedFiducialNode fixedPointRAS) (\<lambda>_.
                  andThen (vsc_ptIJK2RAS e mp movingVolumeNode) (\<lambda>movingPointRAS.
                  andThen (AddNewNodeByClass MarkupsFiducialNode) (\<lambda>movingFiducialNode.
                  andThen (SetName movingFiducialNode ''M_cochleaLocationPoint'') (\<lambda>_.
                  andThen (AddFiducialFromArray e movingFiducialNode movingPointRAS) (\<lambda>_.
                  andThen (py_print [S ''calling self.logic.runAcir'']) (\<lambda>_.
                  runAcir e fixedVolumeNode movingVolumeNode fixedFiducialNode movingFiducialNode
                    customisedOutputPath customisedParPath))))))))))
              | _ \<Rightarrow>
                  andThen (py_print [S ''calling self.logic.run'']) (\<lambda>_.
                  run e fixedVolumeNode movingVolumeNode customisedOutputPath customisedParPath))) (\<lambda>registeredMovingVolumeNode.
     andThen (vsc_fuseTwoImages fixedVolumeNode registeredMovingVolumeNode) (\<lambda>_.
     andThen (py_print [S ''Time: '', Time, S ''  seconds'']) (\<lambda>_.
     delayDisplay ''Test testSlicerCochleaRegistration passed!'')))))))))))))))))"

text \<open>
  Lines 484 to 515. The two paths built from the downloads are assigned again at lines
  509 and 510, and the points at lines 511 and 512, before the test proper is called.
\<close>

definition runTest :: "'f env \<Rightarrow> unit py" where
  "runTest e =
     andThen (setUp) (\<lambda>_.
     let fixedPoint = [220, 242, 78 :: int];
         movingPoint = [196, 217, 93 :: int];
         nodeNames = ''P100001_DV_L_a'';
         fileNames = ''P100001_DV_L_a.nrrd'';
         uris = ''https://github.com/MedicalImageAnalysisTutorials/VisSimData/raw/master/P100001_DV_L_a.nrrd'';
         checksums = ''SHA256:d7cda4e106294a59591f03e74fbe9ecffa322dd1a9010b4d0590b377acc05eb5''
     in
     andThen (downloadFromURL e uris fileNames nodeNames checksums) (\<lambda>tmpVolumeNode.
     let fixedImgPath = join (remoteCacheDirectory e) fileNames
     in
     andThen (removeNode tmpVolumeNode) (\<lambda>_.
     let nodeNames = ''P100001_DV_L_b'';
         fileNames = ''P100001_DV_L_b.nrrd'';
         uris = ''https://github.com/MedicalImageAnalysisTutorials/VisSimData/raw/master/P100001_DV_L_b.nrrd'';
         checksums = ''SHA256:9a5722679caa978b1a566f4a148c8759ce38158ca75813925a2d4f964fdeebf5''
     in
     andThen (downloadFromURL e uris fileNames nodeNames checksums) (\<lambda>tmpVolumeNode.
     let movingImgPath = join (remoteCacheDirectory e) fileNames
     in
     andThen (removeNode tmpVolumeNode) (\<lambda>_.
     let fixedImgPath = ''/media/ibr/h25_2TB_C/ia_work/Cochlea2020/vsReg/srcImages/P100051_MR.nrrd'';
         movingImgPath = ''/media/ibr/h25_2TB_C/ia_work/Cochlea2020/vsReg/srcImages/P100051_DV_R_a.nrrd'';
         fixedPoint = [165, 240, 34 :: int];
         movingPoint = [348, 230, 69]
     in
     testSlicerCochleaRegistration e fixedImgPath movingImgPath (Some fixedPoint) (Some movingPoint)
       None None)))))"

subsection \<open>Auxiliary definitions for the proofs\<close>

text \<open>The global variables a run works with, after \<open>initRun\<close>.\<close>

definition runVars :: "'f env \<Rightarrow> path option \<Rightarrow> path option \<Rightarrow> vtvars" where
  "runVars e cop cpp = customised (setGlobalVariables e) cop cpp"

text \<open>What follows a step: an exception ends the run, a value is handed on.\<close>

fun continue :: "(pyerror + 'a) \<times> world \<Rightarrow> ('a \<Rightarrow> 'b py) \<Rightarrow> (pyerror + 'b) \<times> world" where
  "continue (Inl e, w) f = (Inl e, w)"
| "continue (Inr x, w) f = f x w"

text \<open>
  An environment that differs from \<open>e\<close> only in the exit codes the three binaries
  report: \<open>a\<close> for the registration, \<open>b\<close> for the inversion, \<open>c\<close> for
  the application of the transform. What the binaries do to the files is unchanged.
\<close>

definition withExitCodes :: "'f env \<Rightarrow> int \<Rightarrow> int \<Rightarrow> int \<Rightarrow> 'f env" where
  "withExitCodes e a b c =
     e\<lparr>runElastix := (\<lambda>bin fx mv out pars vb ln fs. (a, snd (runElastix e bin fx mv out pars vb ln fs))),
       runElxInvertTransform := (\<lambda>tp inv fx vb ln fs. (b, snd (runElxInvertTransform e tp inv fx vb ln fs))),
       runTransformix := (\<lambda>bin img out tp vb ln fs. (c, snd (runTransformix e bin img out tp vb ln fs)))\<rparr>"

subsection \<open>A concrete scenario\<close>

text \<open>
  A small world to run the model on: a fixed and a moving volume with their files, two
  fiducial nodes with a cochlea location, and a third fiducial node whose location
  converts to the voxel \<open>[0, 0, 0]\<close>. The binaries write the files the plugin
  expects from them; coordinates are integers.
\<close>

definition sampleVars :: vtvars where
  "sampleVars = \<lparr>outputPath = ''o'', parsPath = ''p'', imgType = ''.nrrd'',
     elastixBinPath = ''elastix'', transformixBinPath = ''transformix'', noOutput = ''n'',
     croppingLength = ''10'', RSxyz = ''r'', hrChk = ''h'',
     fixedCropPath = None, movingCropPath = None\<rparr>"

definition sampleEnv :: "int env" where
  "sampleEnv = \<lparr>setGlobalVariables = sampleVars,
     removeOtputsFolderContents =
       (\<lambda>vt fs p. if startswith p (outputPath vt @ ''/'') then None else fs p),
     ptRAS2IJK = (\<lambda>f v. if content f = ''0'' then [0, 0, 0] else [1, 2, 3]),
     v2t = (\<lambda>p. p),
     runCropping = (\<lambda>n pt l r h fs. (''o/'' @ nodeName n @ ''_crop.nrrd'',
        fs(''o/'' @ nodeName n @ ''_crop.nrrd'' \<mapsto> ''crop''))),
     runElastix = (\<lambda>b f m out pars v l fs. (0, fs(join out ''TransformParameters.0.txt'' \<mapsto>
        ''(Size 1 1 1)'' @ [newline] @ ''(Origin 0 0 0)'' @ [newline] @ ''(T)''))),
     runElxInvertTransform = (\<lambda>tp inv f v l fs. (0, fs(inv \<mapsto> ''INVERSE''))),
     runTransformix = (\<lambda>b img out tp v l fs. (0, fs(join out ''result.nrrd'' \<mapsto> ''res'',
        join out ''deformationField.nrrd'' \<mapsto> ''dfd''))),
     removeTmpsFiles = (\<lambda>vt fs. fs),
     isTmpNode = (\<lambda>n. False),
     getDirs = (\<lambda>n. [1, 0, 0, 0, 1, 0, 0, 0, 1]),
     getDimensions = (\<lambda>n. (4, 5, 6)),
     getOrigin = (\<lambda>n. (7, 8, 9)),
     fmul = (\<lambda>a b. a * b),
     fstr = str_int,
     openRwRaises = False,
     ptIJK2RAS = (\<lambda>p n. p),
     fiducialContent = (\<lambda>p. ''1''),
     remoteCacheDirectory = ''c'',
     fetch = (\<lambda>u. Some ''img'')\<rparr>"

definition sampleWorld :: world where
  "sampleWorld = \<lparr>files = [''f.nrrd'' \<mapsto> ''F'', ''m.nrrd'' \<mapsto> ''M''],
     nodes = [\<lparr>nodeName = ''f'', nodeClass = ScalarVolumeNode,
                storageFileName = Some ''f.nrrd'', content = ''F''\<rparr>,
              \<lparr>nodeName = ''m'', nodeClass = ScalarVolumeNode,
                storageFileName = Some ''m.nrrd'', content = ''M''\<rparr>,
              \<lparr>nodeName = ''pf'', nodeClass = MarkupsFiducialNode,
                storageFileName = None, content = ''1''\<rparr>,
              \<lparr>nodeName = ''pm'', nodeClass = MarkupsFiducialNode,
                storageFileName = None, content = ''1''\<rparr>,
              \<lparr>nodeName = ''pz'', nodeClass = MarkupsFiducialNode,
                storageFileName = None, content = ''0''\<rparr>],
     scene = [0, 1, 2, 3, 4], stdout = [], logged = [], trace = []\<rparr>"

definition widgetNoPoints :: widget where
  "widgetNoPoints = \<lparr>fixedSelectorCurrentNode = Some 0, movingSelectorCurrentNode = Some 1,
     fixedFiducialNode = Some 2, movingFiducialNode = None\<rparr>"

definition widgetBothPoints :: widget where
  "widgetBothPoints = \<lparr>fixedSelectorCurrentNode = Some 0, movingSelectorCurrentNode = Some 1,
     fixedFiducialNode = Some 2, movingFiducialNode = Some 3\<rparr>"

section \<open>Properties\<close>

subsection \<open>The Run button chooses between the two paths\<close>

text \<open>
  Claim C8. When the Run button is clicked and the fixed or the moving fiducial node is
  \<open>None\<close>, the widget calls \<open>run\<close> (the registration of the whole images)
  on the two selected volumes and hands its result to \<open>fuseTwoImages\<close>; it does
  not stop. It calls \<open>runAcir\<close> exactly when both fiducial nodes are set.
\<close>

theorem onApplyBtnClick_dispatch:
  "(fixedFiducialNode self = None \<or> movingFiducialNode self = None \<longrightarrow>
      onApplyBtnClick e self w =
        andThen (run e (fixedSelectorCurrentNode self) (movingSelectorCurrentNode self) None None)
          (vsc_fuseTwoImages (fixedSelectorCurrentNode self))
          (w\<lparr>stdout := stdout w @ [[S ''time:'', Time], [TypeOf (R (fixedFiducialNode self))]]\<rparr>)) \<and>
   (fixedFiducialNode self \<noteq> None \<and> movingFiducialNode self \<noteq> None \<longrightarrow>
      onApplyBtnClick e self w =
        andThen (runAcir e (fixedSelectorCurrentNode self) (movingSelectorCurrentNode self)
                   (fixedFiducialNode self) (movingFiducialNode self) None None)
          (vsc_fuseTwoImages (fixedSelectorCurrentNode self))
          (w\<lparr>stdout := stdout w @ [[S ''time:'', Time], [TypeOf (R (fixedFiducialNode self))]]\<rparr>))"
  by (simp add: onApplyBtnClick_def andThen_def py_print_def modify_def)

theorem onApplyBtnClick_dispatch_witness:
  "(fixedFiducialNode widgetNoPoints = None \<or> movingFiducialNode widgetNoPoints = None) \<and>
   onApplyBtnClick sampleEnv widgetNoPoints sampleWorld =
     andThen (run sampleEnv (Some 0) (Some 1) None None) (vsc_fuseTwoImages (Some 0))
       (sampleWorld\<lparr>stdout := stdout sampleWorld @ [[S ''time:'', Time], [TypeOf (R (Some 2))]]\<rparr>) \<and>
   (fixedFiducialNode widgetBothPoints \<noteq> None \<and> movingFiducialNode widgetBothPoints \<noteq> None) \<and>
   onApplyBtnClick sampleEnv widgetBothPoints sampleWorld =
     andThen (runAcir sampleEnv (Some 0) (Some 1) (Some 2) (Some 3) None None)
       (vsc_fuseTwoImages (Some 0))
       (sampleWorld\<lparr>stdout := stdout sampleWorld @ [[S ''time:'', Time], [TypeOf (R (Some 2))]]\<rparr>)"
  using onApplyBtnClick_dispatch [of widgetNoPoints sampleEnv sampleWorld]
        onApplyBtnClick_dispatch [of widgetBothPoints sampleEnv sampleWorld]
  by (simp add: widgetNoPoints_def widgetBothPoints_def)

end
